theory Spec2Isabelle
  imports Main "HOL-Library.Monad_Syntax"
begin

section \<open>The document object model of the authoring library\<close>

text \<open>
  Both scripts build a word-processing document through the python-docx object model and
  write it with one call of \<^verbatim>\<open>doc.save\<close>. The model keeps what the scripts can set: a
  document is the font of its default (Normal) style and an ordered body of blocks; a
  block is a paragraph or a table; a paragraph has an optional style name, an optional
  alignment and a list of runs; a run has its text, an optional bold flag and a font; a
  table has an optional style name and rows of cells; a cell holds paragraphs.
  Texts are byte strings, the UTF-8 encoding of the Python text. Lengths made by
  \<^verbatim>\<open>Pt\<close> are English Metric Units, 12700 to the point, as in the library.
\<close>

datatype WD_PARAGRAPH_ALIGNMENT = LEFT | CENTER | RIGHT | JUSTIFY

datatype RGBColor = RGBColor nat nat nat

definition Pt :: "nat \<Rightarrow> nat" where
  "Pt points = points * 12700"

record font =
  font_name :: "string option"
  font_size :: "nat option"
  font_color :: "RGBColor option"

record run =
  run_text :: string
  run_bold :: "bool option"
  run_font :: font

record para =
  para_style :: "string option"
  para_alignment :: "WD_PARAGRAPH_ALIGNMENT option"
  para_runs :: "run list"

record cell =
  cell_paragraphs :: "para list"

record table =
  table_style :: "string option"
  table_rows :: "cell list list"

datatype block = BlockParagraph para | BlockTable table

record document =
  normal_font :: font
  body :: "block list"

text \<open>
  The scripts hold references to the objects they have appended and mutate the document
  through them. A reference is a position: a paragraph of the body or of a table cell, a
  run of such a paragraph, a table of the body. Indexing past the end raises
  \<^verbatim>\<open>IndexError\<close> in Python; here every operation returns \<open>None\<close> then.
\<close>

datatype para_ref = BodyPara nat | CellPara nat nat nat nat

type_synonym run_ref = "para_ref \<times> nat"

type_synonym table_ref = nat

fun nth_opt :: "'a list \<Rightarrow> nat \<Rightarrow> 'a option" where
  "nth_opt [] n = None"
| "nth_opt (x # xs) 0 = Some x"
| "nth_opt (x # xs) (Suc n) = nth_opt xs n"

fun upd_nth :: "nat \<Rightarrow> ('a \<Rightarrow> 'a option) \<Rightarrow> 'a list \<Rightarrow> 'a list option" where
  "upd_nth n f [] = None"
| "upd_nth 0 f (x # xs) = map_option (\<lambda>y. y # xs) (f x)"
| "upd_nth (Suc n) f (x # xs) = map_option ((#) x) (upd_nth n f xs)"

definition empty_font :: font where
  "empty_font = \<lparr>font_name = None, font_size = None, font_color = None\<rparr>"

definition new_run :: "string \<Rightarrow> run" where
  "new_run text = \<lparr>run_text = text, run_bold = None, run_font = empty_font\<rparr>"

definition new_paragraph :: "string \<Rightarrow> string option \<Rightarrow> para" where
  \<comment> \<open>\<^verbatim>\<open>add_paragraph(text, style)\<close> adds a run only for a non-empty text.\<close>
  "new_paragraph text style =
     \<lparr>para_style = style, para_alignment = None,
      para_runs = (if text = [] then [] else [new_run text])\<rparr>"

definition new_cell :: cell where
  \<comment> \<open>A fresh table cell holds one empty paragraph.\<close>
  "new_cell = \<lparr>cell_paragraphs = [new_paragraph [] None]\<rparr>"

definition Document :: document where
  \<comment> \<open>\<^verbatim>\<open>Document()\<close>: the default template, whose body is empty.\<close>
  "Document = \<lparr>normal_font = empty_font, body = []\<rparr>"

definition as_para :: "(para \<Rightarrow> para option) \<Rightarrow> block \<Rightarrow> block option" where
  "as_para f b = (case b of BlockParagraph p \<Rightarrow> map_option BlockParagraph (f p)
                          | BlockTable t \<Rightarrow> None)"

definition as_table :: "(table \<Rightarrow> table option) \<Rightarrow> block \<Rightarrow> block option" where
  "as_table f b = (case b of BlockParagraph p \<Rightarrow> None
                           | BlockTable t \<Rightarrow> map_option BlockTable (f t))"

definition update_block :: "nat \<Rightarrow> (block \<Rightarrow> block option) \<Rightarrow> document \<Rightarrow> document option" where
  "update_block i f doc = map_option (\<lambda>b. doc\<lparr>body := b\<rparr>) (upd_nth i f (body doc))"

definition update_cell :: "nat \<Rightarrow> nat \<Rightarrow> (cell \<Rightarrow> cell option) \<Rightarrow> table \<Rightarrow> table option" where
  \<comment> \<open>\<^verbatim>\<open>table.rows[r].cells[c]\<close>\<close>
  "update_cell r c f t =
     map_option (\<lambda>rs. t\<lparr>table_rows := rs\<rparr>) (upd_nth r (upd_nth c f) (table_rows t))"

definition update_cell_para :: "nat \<Rightarrow> (para \<Rightarrow> para option) \<Rightarrow> cell \<Rightarrow> cell option" where
  \<comment> \<open>\<^verbatim>\<open>cell.paragraphs[k]\<close>\<close>
  "update_cell_para k f cl =
     map_option (\<lambda>ps. cl\<lparr>cell_paragraphs := ps\<rparr>) (upd_nth k f (cell_paragraphs cl))"

fun update_para :: "para_ref \<Rightarrow> (para \<Rightarrow> para option) \<Rightarrow> document \<Rightarrow> document option" where
  "update_para (BodyPara i) f doc = update_block i (as_para f) doc"
| "update_para (CellPara t r c k) f doc =
     update_block t (as_table (update_cell r c (update_cell_para k f))) doc"

definition update_run :: "run_ref \<Rightarrow> (run \<Rightarrow> run) \<Rightarrow> document \<Rightarrow> document option" where
  "update_run rr f doc =
     update_para (fst rr)
       (\<lambda>p. map_option (\<lambda>rs. p\<lparr>para_runs := rs\<rparr>)
              (upd_nth (snd rr) (\<lambda>r. Some (f r)) (para_runs p))) doc"

fun get_para :: "para_ref \<Rightarrow> document \<Rightarrow> para option" where
  "get_para (BodyPara i) doc =
     (case nth_opt (body doc) i of Some (BlockParagraph p) \<Rightarrow> Some p | _ \<Rightarrow> None)"
| "get_para (CellPara t r c k) doc =
     (case nth_opt (body doc) t of
        Some (BlockTable tb) \<Rightarrow>
          (case nth_opt (table_rows tb) r of
             Some row \<Rightarrow>
               (case nth_opt row c of
                  Some cl \<Rightarrow> nth_opt (cell_paragraphs cl) k
                | None \<Rightarrow> None)
           | None \<Rightarrow> None)
      | _ \<Rightarrow> None)"

subsection \<open>The operations the scripts call\<close>

definition set_normal_font_name :: "string \<Rightarrow> document \<Rightarrow> document option" where
  \<comment> \<open>\<^verbatim>\<open>doc.styles['Normal'].font.name = name\<close>\<close>
  "set_normal_font_name name doc =
     Some (doc\<lparr>normal_font := (normal_font doc)\<lparr>font_name := Some name\<rparr>\<rparr>)"

definition set_normal_font_size :: "nat \<Rightarrow> document \<Rightarrow> document option" where
  \<comment> \<open>\<^verbatim>\<open>doc.styles['Normal'].font.size = size\<close>\<close>
  "set_normal_font_size sz doc =
     Some (doc\<lparr>normal_font := (normal_font doc)\<lparr>font_size := Some sz\<rparr>\<rparr>)"

definition add_paragraph_styled ::
  "string \<Rightarrow> string option \<Rightarrow> document \<Rightarrow> (para_ref \<times> document) option" where
  "add_paragraph_styled text style doc =
     Some (BodyPara (length (body doc)),
           doc\<lparr>body := body doc @ [BlockParagraph (new_paragraph text style)]\<rparr>)"

definition add_paragraph :: "string \<Rightarrow> document \<Rightarrow> (para_ref \<times> document) option" where
  \<comment> \<open>\<^verbatim>\<open>doc.add_paragraph(text)\<close>; \<^verbatim>\<open>doc.add_paragraph()\<close> is the empty text.\<close>
  "add_paragraph text doc = add_paragraph_styled text None doc"

definition digit_char :: "nat \<Rightarrow> char" where
  "digit_char d = ''0123456789'' ! (d mod 10)"

definition add_heading :: "string \<Rightarrow> nat \<Rightarrow> document \<Rightarrow> (para_ref \<times> document) option" where
  \<comment> \<open>\<^verbatim>\<open>doc.add_heading(text, level)\<close>: \<^verbatim>\<open>ValueError\<close> unless \<open>0 \<le> level \<le> 9\<close>; the style
      is \<^verbatim>\<open>Title\<close> for level 0 and \<^verbatim>\<open>Heading n\<close> otherwise.\<close>
  "add_heading text level doc =
     (if 9 < level then None
      else add_paragraph_styled text
             (Some (if level = 0 then ''Title'' else ''Heading '' @ [digit_char level])) doc)"

definition set_alignment ::
  "para_ref \<Rightarrow> WD_PARAGRAPH_ALIGNMENT \<Rightarrow> document \<Rightarrow> document option" where
  \<comment> \<open>\<^verbatim>\<open>paragraph.alignment = a\<close>\<close>
  "set_alignment p a doc = update_para p (\<lambda>q. Some (q\<lparr>para_alignment := Some a\<rparr>)) doc"

definition add_run :: "para_ref \<Rightarrow> string \<Rightarrow> document \<Rightarrow> (run_ref \<times> document) option" where
  \<comment> \<open>\<^verbatim>\<open>paragraph.add_run(text)\<close>: the new run is the paragraph's last.\<close>
  "add_run p text doc =
     do {
       q \<leftarrow> get_para p doc;
       doc' \<leftarrow> update_para p (\<lambda>q. Some (q\<lparr>para_runs := para_runs q @ [new_run text]\<rparr>)) doc;
       Some ((p, length (para_runs q)), doc')
     }"

definition set_bold :: "run_ref \<Rightarrow> bool \<Rightarrow> document \<Rightarrow> document option" where
  \<comment> \<open>\<^verbatim>\<open>run.bold = b\<close>\<close>
  "set_bold rr b doc = update_run rr (\<lambda>r. r\<lparr>run_bold := Some b\<rparr>) doc"

definition set_font_size :: "run_ref \<Rightarrow> nat \<Rightarrow> document \<Rightarrow> document option" where
  \<comment> \<open>\<^verbatim>\<open>run.font.size = size\<close>\<close>
  "set_font_size rr sz doc =
     update_run rr (\<lambda>r. r\<lparr>run_font := (run_font r)\<lparr>font_size := Some sz\<rparr>\<rparr>) doc"

definition set_font_color :: "run_ref \<Rightarrow> RGBColor \<Rightarrow> document \<Rightarrow> document option" where
  \<comment> \<open>\<^verbatim>\<open>run.font.color.rgb = colour\<close>\<close>
  "set_font_color rr col doc =
     update_run rr (\<lambda>r. r\<lparr>run_font := (run_font r)\<lparr>font_color := Some col\<rparr>\<rparr>) doc"

definition add_table :: "nat \<Rightarrow> nat \<Rightarrow> document \<Rightarrow> (table_ref \<times> document) option" where
  \<comment> \<open>\<^verbatim>\<open>doc.add_table(rows, cols)\<close>\<close>
  "add_table rows cols doc =
     Some (length (body doc),
           doc\<lparr>body := body doc @
             [BlockTable \<lparr>table_style = None,
                          table_rows = replicate rows (replicate cols new_cell)\<rparr>]\<rparr>)"

definition set_table_style :: "table_ref \<Rightarrow> string \<Rightarrow> document \<Rightarrow> document option" where
  \<comment> \<open>\<^verbatim>\<open>table.style = name\<close>; the name is taken to be one the default template defines.\<close>
  "set_table_style t name doc =
     update_block t (as_table (\<lambda>tb. Some (tb\<lparr>table_style := Some name\<rparr>))) doc"

definition set_cell_text ::
  "table_ref \<Rightarrow> nat \<Rightarrow> nat \<Rightarrow> string \<Rightarrow> document \<Rightarrow> document option" where
  \<comment> \<open>\<^verbatim>\<open>table.rows[r].cells[c].text = text\<close>: the cell's content is replaced by one
      paragraph of one run.\<close>
  "set_cell_text t r c text doc =
     update_block t
       (as_table (update_cell r c
          (\<lambda>cl. Some (cl\<lparr>cell_paragraphs :=
                   [\<lparr>para_style = None, para_alignment = None,
                     para_runs = [new_run text]\<rparr>]\<rparr>)))) doc"

section \<open>createTestTemplate.py: the welcome letter\<close>

definition welcome_document :: "document option" where
  "welcome_document =
     do {
       doc \<leftarrow> Some Document;
       (title, doc) \<leftarrow> add_heading ''Welcome Letter'' 1 doc;
       doc \<leftarrow> set_alignment title CENTER doc;
       (_, doc) \<leftarrow> add_paragraph [] doc;
       (_, doc) \<leftarrow> add_paragraph ''Dear {{firstName}} {{lastName}},'' doc;
       (_, doc) \<leftarrow> add_paragraph [] doc;
       (body, doc) \<leftarrow> add_paragraph
         ''Thank you for completing our workflow! We have successfully received your information.''
         doc;
       (_, doc) \<leftarrow> add_paragraph [] doc;
       (_, doc) \<leftarrow> add_paragraph ''Your Details:'' doc;
       (table, doc) \<leftarrow> add_table 3 2 doc;
       doc \<leftarrow> set_table_style table ''Light Grid Accent 1'' doc;
       doc \<leftarrow> set_cell_text table 0 0 ''First Name:'' doc;
       doc \<leftarrow> set_cell_text table 0 1 ''{{firstName}}'' doc;
       doc \<leftarrow> set_cell_text table 1 0 ''Last Name:'' doc;
       doc \<leftarrow> set_cell_text table 1 1 ''{{lastName}}'' doc;
       doc \<leftarrow> set_cell_text table 2 0 ''Email:'' doc;
       doc \<leftarrow> set_cell_text table 2 1 ''{{email}}'' doc;
       (_, doc) \<leftarrow> add_paragraph [] doc;
       (_, doc) \<leftarrow> add_paragraph ''We look forward to working with you!'' doc;
       (_, doc) \<leftarrow> add_paragraph [] doc;
       (closing, doc) \<leftarrow> add_paragraph ''Best regards,'' doc;
       (_, doc) \<leftarrow> add_paragraph ''The VaultLogic Team'' doc;
       Some doc
     }"

section \<open>createLoanTemplate.py: the loan application summary\<close>

subsection \<open>The date stamp\<close>

text \<open>
  The loan script reads the clock once, \<^verbatim>\<open>datetime.now().strftime("%B %d, %Y")\<close>. The
  clock is a parameter of the model: the local date the call returns. \<^verbatim>\<open>%B\<close> is the full
  month name (Python leaves the time locale at C), \<^verbatim>\<open>%d\<close> the day of the month padded to
  two digits, \<^verbatim>\<open>%Y\<close> the year in decimal.
\<close>

datatype month =
  January | February | March | April | May | June | July | August | September | October
  | November | December

record datetime =
  dt_year :: nat
  dt_month :: month
  dt_day :: nat

fun month_name :: "month \<Rightarrow> string" where
  "month_name January = ''January''"
| "month_name February = ''February''"
| "month_name March = ''March''"
| "month_name April = ''April''"
| "month_name May = ''May''"
| "month_name June = ''June''"
| "month_name July = ''July''"
| "month_name August = ''August''"
| "month_name September = ''September''"
| "month_name October = ''October''"
| "month_name November = ''November''"
| "month_name December = ''December''"

function decimal :: "nat \<Rightarrow> string" where
  "decimal n = (if n < 10 then [digit_char n] else decimal (n div 10) @ [digit_char n])"
  by pat_completeness auto
termination
  by (relation "measure id") auto

declare decimal.simps [simp del]

definition two_digits :: "nat \<Rightarrow> string" where
  "two_digits n = (if n < 10 then CHR ''0'' # decimal n else decimal n)"

definition strftime :: "datetime \<Rightarrow> string" where
  \<comment> \<open>the format \<^verbatim>\<open>"%B %d, %Y"\<close>\<close>
  "strftime now =
     month_name (dt_month now) @ '' '' @ two_digits (dt_day now) @ '', '' @ decimal (dt_year now)"

subsection \<open>The script, section by section\<close>

definition bullet :: string where
  \<comment> \<open>U+2022 in UTF-8\<close>
  "bullet = [CHR 0xE2, CHR 0x80, CHR 0xA2]"

definition letterhead :: "document \<Rightarrow> document option" where
  "letterhead doc =
     do {
       (header, doc) \<leftarrow> add_paragraph [] doc;
       doc \<leftarrow> set_alignment header CENTER doc;
       (run, doc) \<leftarrow> add_run header ''FINANCIAL SERVICES COMPANY'' doc;
       doc \<leftarrow> set_bold run True doc;
       doc \<leftarrow> set_font_size run (Pt 16) doc;
       doc \<leftarrow> set_font_color run (RGBColor 0 51 102) doc;
       (header2, doc) \<leftarrow> add_paragraph [] doc;
       doc \<leftarrow> set_alignment header2 CENTER doc;
       (run2, doc) \<leftarrow> add_run header2
         (''123 Main Street '' @ bullet @ '' Suite 500 '' @ bullet @
          '' Anytown, ST 12345\<newline>'') doc;
       doc \<leftarrow> set_font_size run2 (Pt 9) doc;
       (run3, doc) \<leftarrow> add_run header2
         (''Phone: (555) 123-4567 '' @ bullet @ '' Email: loans@financialservices.com'') doc;
       doc \<leftarrow> set_font_size run3 (Pt 9) doc;
       (_, doc) \<leftarrow> add_paragraph (replicate 80 CHR ''_'') doc;
       Some doc
     }"

definition date_and_reference :: "datetime \<Rightarrow> document \<Rightarrow> document option" where
  "date_and_reference now doc =
     do {
       (_, doc) \<leftarrow> add_paragraph [] doc;
       (date_para, doc) \<leftarrow> add_paragraph (''Date: '' @ strftime now) doc;
       doc \<leftarrow> set_alignment date_para RIGHT doc;
       (_, doc) \<leftarrow> add_paragraph [] doc;
       Some doc
     }"

definition applicant_information :: "document \<Rightarrow> document option" where
  "applicant_information doc =
     do {
       (title, doc) \<leftarrow> add_heading ''LOAN APPLICATION SUMMARY'' 1 doc;
       doc \<leftarrow> set_alignment title CENTER doc;
       (_, doc) \<leftarrow> add_paragraph [] doc;
       (_, doc) \<leftarrow> add_heading ''Applicant Information'' 2 doc;
       (applicant_table, doc) \<leftarrow> add_table 5 2 doc;
       doc \<leftarrow> set_table_style applicant_table ''Light Grid Accent 1'' doc;
       doc \<leftarrow> set_cell_text applicant_table 0 0 ''Full Name:'' doc;
       doc \<leftarrow> set_cell_text applicant_table 0 1 ''{{firstName}} {{lastName}}'' doc;
       doc \<leftarrow> set_cell_text applicant_table 1 0 ''Email Address:'' doc;
       doc \<leftarrow> set_cell_text applicant_table 1 1 ''{{email}}'' doc;
       doc \<leftarrow> set_cell_text applicant_table 2 0 ''Phone Number:'' doc;
       doc \<leftarrow> set_cell_text applicant_table 2 1 ''{{phone}}'' doc;
       doc \<leftarrow> set_cell_text applicant_table 3 0 ''Date of Birth:'' doc;
       doc \<leftarrow> set_cell_text applicant_table 3 1 ''{{dateOfBirth}}'' doc;
       doc \<leftarrow> set_cell_text applicant_table 4 0 ''SSN (last 4 digits):'' doc;
       doc \<leftarrow> set_cell_text applicant_table 4 1 ''XXX-XX-{{ssn}}'' doc;
       (_, doc) \<leftarrow> add_paragraph [] doc;
       Some doc
     }"

definition employment_information :: "document \<Rightarrow> document option" where
  "employment_information doc =
     do {
       (_, doc) \<leftarrow> add_heading ''Employment Information'' 2 doc;
       (employment_table, doc) \<leftarrow> add_table 4 2 doc;
       doc \<leftarrow> set_table_style employment_table ''Light Grid Accent 1'' doc;
       doc \<leftarrow> set_cell_text employment_table 0 0 ''Employment Status:'' doc;
       doc \<leftarrow> set_cell_text employment_table 0 1 ''{{employmentStatus}}'' doc;
       doc \<leftarrow> set_cell_text employment_table 1 0 ''Employer Name:'' doc;
       doc \<leftarrow> set_cell_text employment_table 1 1 ''{{employerName}}'' doc;
       doc \<leftarrow> set_cell_text employment_table 2 0 ''Job Title:'' doc;
       doc \<leftarrow> set_cell_text employment_table 2 1 ''{{jobTitle}}'' doc;
       doc \<leftarrow> set_cell_text employment_table 3 0 ''Annual Income:'' doc;
       doc \<leftarrow> set_cell_text employment_table 3 1 ''${{annualIncome}}'' doc;
       (_, doc) \<leftarrow> add_paragraph [] doc;
       Some doc
     }"

definition loan_request_details :: "document \<Rightarrow> document option" where
  "loan_request_details doc =
     do {
       (_, doc) \<leftarrow> add_heading ''Loan Request Details'' 2 doc;
       (loan_table, doc) \<leftarrow> add_table 3 2 doc;
       doc \<leftarrow> set_table_style loan_table ''Light Grid Accent 1'' doc;
       doc \<leftarrow> set_cell_text loan_table 0 0 ''Requested Amount:'' doc;
       (run, doc) \<leftarrow> add_run (CellPara loan_table 0 1 0) ''${{loanAmount}}'' doc;
       doc \<leftarrow> set_bold run True doc;
       doc \<leftarrow> set_font_size run (Pt 12) doc;
       doc \<leftarrow> set_font_color run (RGBColor 0 102 0) doc;
       doc \<leftarrow> set_cell_text loan_table 1 0 ''Loan Purpose:'' doc;
       doc \<leftarrow> set_cell_text loan_table 1 1 ''{{loanPurpose}}'' doc;
       doc \<leftarrow> set_cell_text loan_table 2 0 ''Preferred Term:'' doc;
       doc \<leftarrow> set_cell_text loan_table 2 1 ''{{loanTerm}}'' doc;
       (_, doc) \<leftarrow> add_paragraph [] doc;
       Some doc
     }"

definition financial_analysis :: "document \<Rightarrow> document option" where
  "financial_analysis doc =
     do {
       (_, doc) \<leftarrow> add_heading ''Financial Analysis'' 2 doc;
       (analysis_table, doc) \<leftarrow> add_table 3 2 doc;
       doc \<leftarrow> set_table_style analysis_table ''Light Grid Accent 1'' doc;
       doc \<leftarrow> set_cell_text analysis_table 0 0 ''Monthly Income:'' doc;
       doc \<leftarrow> set_cell_text analysis_table 0 1 ''${{debtToIncomeRatio.monthlyIncome}}'' doc;
       doc \<leftarrow> set_cell_text analysis_table 1 0 ''Monthly Debt Payments:'' doc;
       doc \<leftarrow> set_cell_text analysis_table 1 1 ''${{monthlyDebt}}'' doc;
       doc \<leftarrow> set_cell_text analysis_table 2 0 ''Debt-to-Income Ratio:'' doc;
       doc \<leftarrow> set_cell_text analysis_table 2 1
         ''{{debtToIncomeRatio.ratio}}% ({{debtToIncomeRatio.status}})'' doc;
       (_, doc) \<leftarrow> add_paragraph [] doc;
       Some doc
     }"

definition footer_disclaimer :: "document \<Rightarrow> document option" where
  "footer_disclaimer doc =
     do {
       (_, doc) \<leftarrow> add_paragraph (replicate 80 CHR ''_'') doc;
       (_, doc) \<leftarrow> add_paragraph [] doc;
       (disclaimer, doc) \<leftarrow> add_paragraph [] doc;
       doc \<leftarrow> set_alignment disclaimer CENTER doc;
       (run, doc) \<leftarrow> add_run disclaimer ''APPLICATION STATUS: PENDING REVIEW'' doc;
       doc \<leftarrow> set_bold run True doc;
       doc \<leftarrow> set_font_size run (Pt 12) doc;
       doc \<leftarrow> set_font_color run (RGBColor 0 51 102) doc;
       (_, doc) \<leftarrow> add_paragraph [] doc;
       (next_steps, doc) \<leftarrow> add_paragraph [] doc;
       (label, doc) \<leftarrow> add_run next_steps ''Next Steps:\<newline>'' doc;
       doc \<leftarrow> set_bold label True doc;
       (_, doc) \<leftarrow> add_run next_steps
         (''1. A loan officer will review your application within 2-3 business days\<newline>'' @
          ''2. You may be contacted for additional documentation\<newline>'' @
          ''3. Upon approval, you will receive loan terms and documentation to sign\<newline>'')
         doc;
       (_, doc) \<leftarrow> add_paragraph [] doc;
       (footer_para, doc) \<leftarrow> add_paragraph [] doc;
       doc \<leftarrow> set_alignment footer_para CENTER doc;
       (footer_run, doc) \<leftarrow> add_run footer_para
         (''This document is confidential and intended solely for the named applicant.\<newline>'' @
          ''Please contact us at (555) 123-4567 with any questions.'') doc;
       doc \<leftarrow> set_font_size footer_run (Pt 8) doc;
       doc \<leftarrow> set_font_color footer_run (RGBColor 128 128 128) doc;
       Some doc
     }"

definition loan_document :: "datetime \<Rightarrow> document option" where
  "loan_document now =
     do {
       doc \<leftarrow> Some Document;
       doc \<leftarrow> set_normal_font_name ''Calibri'' doc;
       doc \<leftarrow> set_normal_font_size (Pt 11) doc;
       doc \<leftarrow> letterhead doc;
       doc \<leftarrow> date_and_reference now doc;
       doc \<leftarrow> applicant_information doc;
       doc \<leftarrow> employment_information doc;
       doc \<leftarrow> loan_request_details doc;
       doc \<leftarrow> financial_analysis doc;
       doc \<leftarrow> footer_disclaimer doc;
       Some doc
     }"

section \<open>Placeholder tokens\<close>

text \<open>
  A placeholder token is a name between \<^verbatim>\<open>{{\<close> and the next \<^verbatim>\<open>}}\<close> of one text. The scanner
  reads a text from left to right; its state is \<open>None\<close> outside a token and \<open>Some acc\<close>
  inside one, \<open>acc\<close> being the name read so far, reversed. The texts of a document are the
  texts of its body paragraphs and of the paragraphs of its table cells, in order; the
  text of a paragraph is the concatenation of its runs.
\<close>

fun scan_tokens :: "string option \<Rightarrow> string \<Rightarrow> string list" where
  "scan_tokens st [] = []"
| "scan_tokens st [c] = []"
| "scan_tokens None (c # d # cs) =
     (if c = CHR ''{'' \<and> d = CHR ''{'' then scan_tokens (Some []) cs
      else scan_tokens None (d # cs))"
| "scan_tokens (Some acc) (c # d # cs) =
     (if c = CHR ''}'' \<and> d = CHR ''}'' then rev acc # scan_tokens None cs
      else scan_tokens (Some (c # acc)) (d # cs))"

definition tokens_of :: "string \<Rightarrow> string list" where
  "tokens_of s = scan_tokens None s"

definition para_text :: "para \<Rightarrow> string" where
  "para_text p = concat (map run_text (para_runs p))"

definition cell_text :: "cell \<Rightarrow> string" where
  \<comment> \<open>\<^verbatim>\<open>cell.text\<close>: the cell's paragraphs joined by newlines\<close>
  "cell_text cl =
     (case map para_text (cell_paragraphs cl) of
        [] \<Rightarrow> []
      | t # ts \<Rightarrow> foldl (\<lambda>acc u. acc @ ''\<newline>'' @ u) t ts)"

fun block_texts :: "block \<Rightarrow> string list" where
  "block_texts (BlockParagraph p) = [para_text p]"
| "block_texts (BlockTable t) =
     concat (map (\<lambda>row. concat (map (\<lambda>cl. map para_text (cell_paragraphs cl)) row))
                 (table_rows t))"

definition document_texts :: "document \<Rightarrow> string list" where
  "document_texts doc = concat (map block_texts (body doc))"

definition document_tokens :: "document \<Rightarrow> string list" where
  "document_tokens doc = concat (map tokens_of (document_texts doc))"

definition tables_of :: "document \<Rightarrow> table list" where
  "tables_of doc = concat (map (\<lambda>b. case b of BlockParagraph p \<Rightarrow> [] | BlockTable t \<Rightarrow> [t])
                               (body doc))"

definition table_dimensions :: "table \<Rightarrow> nat \<times> nat list" where
  \<comment> \<open>the number of rows, and the number of cells of each row\<close>
  "table_dimensions t = (length (table_rows t), map length (table_rows t))"

definition table_cell :: "table \<Rightarrow> nat \<Rightarrow> nat \<Rightarrow> cell option" where
  \<comment> \<open>reading \<^verbatim>\<open>table.rows[r].cells[c]\<close>\<close>
  "table_cell t r c = (case nth_opt (table_rows t) r of None \<Rightarrow> None | Some row \<Rightarrow> nth_opt row c)"

fun labelled_tables :: "block list \<Rightarrow> (string \<times> nat \<times> nat list) list" where
  \<comment> \<open>each table that follows a paragraph, with that paragraph's text and its dimensions\<close>
  "labelled_tables (BlockParagraph p # BlockTable t # bs) =
     (para_text p, table_dimensions t) # labelled_tables bs"
| "labelled_tables (b # bs) = labelled_tables bs"
| "labelled_tables [] = []"

text \<open>
  What a downstream filler does with a text is not part of the scripts. Its simplest
  reading is kept here to say what an embedded token means: every \<^verbatim>\<open>{{name}}\<close> is replaced
  by the value the environment gives the name, and every other character is copied. An
  opening \<^verbatim>\<open>{{\<close> that is never closed is copied as it stands.
\<close>

fun substitute :: "(string \<Rightarrow> string) \<Rightarrow> string option \<Rightarrow> string \<Rightarrow> string" where
  "substitute env None [] = []"
| "substitute env (Some acc) [] = ''{{'' @ rev acc"
| "substitute env None [c] = [c]"
| "substitute env (Some acc) [c] = ''{{'' @ rev acc @ [c]"
| "substitute env None (c # d # cs) =
     (if c = CHR ''{'' \<and> d = CHR ''{'' then substitute env (Some []) cs
      else c # substitute env None (d # cs))"
| "substitute env (Some acc) (c # d # cs) =
     (if c = CHR ''}'' \<and> d = CHR ''}'' then env (rev acc) @ substitute env None cs
      else substitute env (Some (c # acc)) (d # cs))"

definition fill :: "(string \<Rightarrow> string) \<Rightarrow> string \<Rightarrow> string" where
  "fill env s = substitute env None s"

section \<open>Paths and the file system\<close>

subsection \<open>\<^verbatim>\<open>os.path\<close> on POSIX\<close>

text \<open>
  Paths are strings. \<^verbatim>\<open>os.path.join\<close>, \<^verbatim>\<open>os.path.split\<close> and \<^verbatim>\<open>os.path.dirname\<close> are
  the functions of \<^verbatim>\<open>posixpath\<close>: \<^verbatim>\<open>join\<close> restarts at a component that begins with a
  slash and puts one slash between the others; \<^verbatim>\<open>split\<close> cuts after the last slash and
  strips the trailing slashes of the head unless the head is slashes only.
\<close>

definition sep :: char where
  "sep = CHR ''/''"

definition join2 :: "string \<Rightarrow> string \<Rightarrow> string" where
  "join2 path b =
     (if b \<noteq> [] \<and> hd b = sep then b
      else if path = [] \<or> last path = sep then path @ b
      else path @ [sep] @ b)"

definition os_path_join :: "string \<Rightarrow> string list \<Rightarrow> string" where
  "os_path_join a ps = foldl join2 a ps"

definition rstrip_sep :: "string \<Rightarrow> string" where
  "rstrip_sep s = rev (dropWhile (\<lambda>c. c = sep) (rev s))"

definition os_path_split :: "string \<Rightarrow> string \<times> string" where
  "os_path_split p =
     (let head = rev (dropWhile (\<lambda>c. c \<noteq> sep) (rev p));
          tail = rev (takeWhile (\<lambda>c. c \<noteq> sep) (rev p))
      in (if rstrip_sep head = [] then head else rstrip_sep head, tail))"

definition os_path_dirname :: "string \<Rightarrow> string" where
  "os_path_dirname p = fst (os_path_split p)"

subsection \<open>The file system\<close>

text \<open>
  The file system is what the two calls \<^verbatim>\<open>os.makedirs\<close> and \<^verbatim>\<open>doc.save\<close> can see and
  change: a tree of directories and regular files, the working directory, and whether the
  disk is full. A node is addressed by the list of names from the root. A directory
  carries whether the process may create entries in it, a file whether the process may
  write it. A file holds a saved document, or is truncated (opened for writing and not
  written to the end), or holds other bytes. There are no symbolic links, and search
  permission is not modelled.

  A path string is resolved by walking its components from the root or from the working
  directory: every component is looked up in a directory, \<^verbatim>\<open>.\<close> and the empty component
  stay, \<^verbatim>\<open>..\<close> goes to the parent. The last component need not exist.
\<close>

datatype os_error =
  FileNotFoundError | NotADirectoryError | FileExistsError | IsADirectoryError
  | PermissionError | NoSpaceError

datatype file_data = Truncated | Docx document | Bytes string

datatype node = Dir bool | File bool file_data

record filesystem =
  nodes :: "string list \<Rightarrow> node option"
  cwd :: "string list"
  disk_full :: bool

definition components :: "string \<Rightarrow> string list" where
  "components s =
     foldr (\<lambda>c acc. if c = sep then [] # acc else (c # hd acc) # tl acc) s [[]]"

fun walk :: "filesystem \<Rightarrow> string list \<Rightarrow> string list \<Rightarrow> os_error + string list" where
  "walk fs cur [] = Inr cur"
| "walk fs cur (c # cs) =
     (case nodes fs cur of
        None \<Rightarrow> Inl FileNotFoundError
      | Some (File w d) \<Rightarrow> Inl NotADirectoryError
      | Some (Dir w) \<Rightarrow>
          if c = [] \<or> c = ''.'' then walk fs cur cs
          else if c = ''..'' then walk fs (butlast cur) cs
          else walk fs (cur @ [c]) cs)"

definition resolve :: "filesystem \<Rightarrow> string \<Rightarrow> os_error + string list" where
  "resolve fs p =
     (if p = [] then Inl FileNotFoundError
      else walk fs (if hd p = sep then [] else cwd fs) (components p))"

definition os_path_exists :: "filesystem \<Rightarrow> string \<Rightarrow> bool" where
  "os_path_exists fs p =
     (case resolve fs p of Inl e \<Rightarrow> False | Inr t \<Rightarrow> nodes fs t \<noteq> None)"

definition os_path_isdir :: "filesystem \<Rightarrow> string \<Rightarrow> bool" where
  "os_path_isdir fs p =
     (case resolve fs p of
        Inl e \<Rightarrow> False
      | Inr t \<Rightarrow> (case nodes fs t of Some (Dir w) \<Rightarrow> True | _ \<Rightarrow> False))"

definition os_mkdir :: "string \<Rightarrow> filesystem \<Rightarrow> os_error + filesystem" where
  "os_mkdir p fs =
     (case resolve fs p of
        Inl e \<Rightarrow> Inl e
      | Inr t \<Rightarrow>
          (case nodes fs t of
             Some n \<Rightarrow> Inl FileExistsError
           | None \<Rightarrow>
               (case nodes fs (butlast t) of
                  Some (Dir w) \<Rightarrow>
                    if \<not> w then Inl PermissionError
                    else if disk_full fs then Inl NoSpaceError
                    else Inr (fs\<lparr>nodes := (nodes fs)(t \<mapsto> Dir True)\<rparr>)
                | Some (File w d) \<Rightarrow> Inl NotADirectoryError
                | None \<Rightarrow> Inl FileNotFoundError)))"

text \<open>
  \<^verbatim>\<open>os.makedirs(name, exist_ok)\<close> as CPython writes it: split the name (twice when it ends
  in a slash); when the head does not exist, make it first, passing over
  \<^verbatim>\<open>FileExistsError\<close>, and stop there when the tail is \<^verbatim>\<open>.\<close>; then \<^verbatim>\<open>mkdir\<close> the name,
  and pass over its error only when \<^verbatim>\<open>exist_ok\<close> holds and the name is a directory.
\<close>

definition makedirs_split :: "string \<Rightarrow> string \<times> string" where
  "makedirs_split name =
     (let (head, tail) = os_path_split name
      in if tail = [] then os_path_split head else (head, tail))"

definition makedirs_head_missing :: "filesystem \<Rightarrow> string \<Rightarrow> bool" where
  "makedirs_head_missing fs name =
     (let (head, tail) = makedirs_split name
      in head \<noteq> [] \<and> tail \<noteq> [] \<and> \<not> os_path_exists fs head)"

lemma rstrip_sep_length: "length (rstrip_sep s) \<le> length s"
  unfolding rstrip_sep_def using length_dropWhile_le [of "\<lambda>c. c = sep" "rev s"] by simp

lemma os_path_split_head_length: "length (fst (os_path_split p)) \<le> length p"
proof -
  have "length (dropWhile (\<lambda>c. c \<noteq> sep) (rev p)) \<le> length p"
    using length_dropWhile_le [of "\<lambda>c. c \<noteq> sep" "rev p"] by simp
  then show ?thesis
    using rstrip_sep_length [of "rev (dropWhile (\<lambda>c. c \<noteq> sep) (rev p))"]
    by (simp add: os_path_split_def Let_def)
qed

lemma os_path_split_head_shorter:
  "snd (os_path_split p) \<noteq> [] \<Longrightarrow> length (fst (os_path_split p)) < length p"
proof -
  assume t: "snd (os_path_split p) \<noteq> []"
  have "length (takeWhile (\<lambda>c. c \<noteq> sep) (rev p)) + length (dropWhile (\<lambda>c. c \<noteq> sep) (rev p))
          = length p"
    by (metis length_append length_rev takeWhile_dropWhile_id)
  moreover have "0 < length (takeWhile (\<lambda>c. c \<noteq> sep) (rev p))"
    using t by (simp add: os_path_split_def Let_def)
  ultimately have "length (dropWhile (\<lambda>c. c \<noteq> sep) (rev p)) < length p" by arith
  then show ?thesis
    using rstrip_sep_length [of "rev (dropWhile (\<lambda>c. c \<noteq> sep) (rev p))"]
    by (simp add: os_path_split_def Let_def)
qed

lemma makedirs_split_shorter:
  "snd (makedirs_split name) \<noteq> [] \<Longrightarrow> length (fst (makedirs_split name)) < length name"
  using os_path_split_head_shorter [of name]
    os_path_split_head_shorter [of "fst (os_path_split name)"]
    os_path_split_head_length [of name]
  by (auto simp: makedirs_split_def Let_def split: prod.splits if_splits)

function os_makedirs :: "string \<Rightarrow> bool \<Rightarrow> filesystem \<Rightarrow> os_error + filesystem" where
  "os_makedirs name exist_ok fs =
     (case (if makedirs_head_missing fs name
            then (case os_makedirs (fst (makedirs_split name)) exist_ok fs of
                    Inl e \<Rightarrow> if e = FileExistsError then Inr fs else Inl e
                  | Inr fs' \<Rightarrow> Inr fs')
            else Inr fs) of
        Inl e \<Rightarrow> Inl e
      | Inr fs1 \<Rightarrow>
          if makedirs_head_missing fs name \<and> snd (makedirs_split name) = ''.'' then Inr fs1
          else (case os_mkdir name fs1 of
                  Inr fs2 \<Rightarrow> Inr fs2
                | Inl e \<Rightarrow> if \<not> exist_ok \<or> \<not> os_path_isdir fs1 name then Inl e else Inr fs1))"
  by pat_completeness auto
termination
proof (relation "measure (\<lambda>(name, exist_ok, fs). length name)")
  show "wf (measure (\<lambda>(name, exist_ok, fs). length name))" by simp
next
  fix name :: string and exist_ok :: bool and fs :: filesystem
  assume "makedirs_head_missing fs name"
  then have "snd (makedirs_split name) \<noteq> []"
    by (simp add: makedirs_head_missing_def split: prod.splits)
  then show "((fst (makedirs_split name), exist_ok, fs), (name, exist_ok, fs))
               \<in> measure (\<lambda>(name, exist_ok, fs). length name)"
    using makedirs_split_shorter [of name] by simp
qed

declare os_makedirs.simps [simp del]

text \<open>
  \<^verbatim>\<open>doc.save(path)\<close> opens the path for writing and then writes the package. Opening
  creates the file (the directory must allow it) or truncates the existing one (the file
  must allow it); it is the write that needs disk space. The save is not atomic: a write
  that fails leaves the truncated file behind.
\<close>

definition write_docx ::
  "document \<Rightarrow> string list \<Rightarrow> bool \<Rightarrow> filesystem \<Rightarrow> os_error option \<times> filesystem" where
  "write_docx doc t w fs =
     (if disk_full fs then (Some NoSpaceError, fs\<lparr>nodes := (nodes fs)(t \<mapsto> File w Truncated)\<rparr>)
      else (None, fs\<lparr>nodes := (nodes fs)(t \<mapsto> File w (Docx doc))\<rparr>))"

definition doc_save :: "document \<Rightarrow> string \<Rightarrow> filesystem \<Rightarrow> os_error option \<times> filesystem" where
  "doc_save doc path fs =
     (case resolve fs path of
        Inl e \<Rightarrow> (Some e, fs)
      | Inr t \<Rightarrow>
          (case nodes fs t of
             Some (Dir w) \<Rightarrow> (Some IsADirectoryError, fs)
           | Some (File w d) \<Rightarrow>
               if \<not> w then (Some PermissionError, fs) else write_docx doc t w fs
           | None \<Rightarrow>
               (case nodes fs (butlast t) of
                  Some (Dir w) \<Rightarrow>
                    if \<not> w then (Some PermissionError, fs) else write_docx doc t True fs
                | Some (File w d) \<Rightarrow> (Some NotADirectoryError, fs)
                | None \<Rightarrow> (Some FileNotFoundError, fs))))"

section \<open>The two scripts as programs\<close>

text \<open>
  A run takes the script's own path (\<^verbatim>\<open>__file__\<close>), for the loan script the date the clock
  gives, and the file system. Neither script reads its arguments or the environment,
  so a run has no other input. An exception nobody catches ends the run with exit status 1
  and its message on the error stream; nothing has been printed by then, since both
  scripts print only after the save.
\<close>

datatype exception = OSError os_error | LibraryError

fun traceback :: "exception \<Rightarrow> string" where
  "traceback (OSError FileNotFoundError) = ''FileNotFoundError''"
| "traceback (OSError NotADirectoryError) = ''NotADirectoryError''"
| "traceback (OSError FileExistsError) = ''FileExistsError''"
| "traceback (OSError IsADirectoryError) = ''IsADirectoryError''"
| "traceback (OSError PermissionError) = ''PermissionError''"
| "traceback (OSError NoSpaceError) = ''OSError: [Errno 28] No space left on device''"
| "traceback LibraryError = ''Error raised while building the document''"

record outcome =
  exit_status :: nat
  stdout :: "string list"
  stderr :: "string list"
  files :: filesystem

definition uncaught :: "exception \<Rightarrow> filesystem \<Rightarrow> outcome" where
  "uncaught e fs = \<lparr>exit_status = 1, stdout = [], stderr = [traceback e], files = fs\<rparr>"

definition loan_output_dir :: "string \<Rightarrow> string" where
  "loan_output_dir file =
     os_path_join (os_path_dirname file) [''..'', ''server'', ''files'', ''templates'']"

definition loan_output_path :: "string \<Rightarrow> string" where
  "loan_output_path file = os_path_join (loan_output_dir file) [''loan-application-summary.docx'']"

definition loan_report :: "string \<Rightarrow> string list" where
  \<comment> \<open>the arguments of the calls of \<^verbatim>\<open>print\<close>, in order\<close>
  "loan_report output_path =
     [''[OK] Template created: '' @ output_path,
      ''\<newline>Template includes the following placeholders:'',
      ''  - {{firstName}}, {{lastName}}'',
      ''  - {{email}}, {{phone}}, {{dateOfBirth}}, {{ssn}}'',
      ''  - {{employmentStatus}}, {{employerName}}, {{jobTitle}}'',
      ''  - {{annualIncome}}, {{monthlyDebt}}'',
      ''  - {{loanAmount}}, {{loanPurpose}}, {{loanTerm}}'',
      ''  - {{debtToIncomeRatio.ratio}}, {{debtToIncomeRatio.status}}, {{debtToIncomeRatio.monthlyIncome}}'',
      ''\<newline>Template ready for use!'']"

definition createLoanTemplate :: "string \<Rightarrow> datetime \<Rightarrow> filesystem \<Rightarrow> outcome" where
  "createLoanTemplate file now fs =
     (case loan_document now of
        None \<Rightarrow> uncaught LibraryError fs
      | Some doc \<Rightarrow>
          (let output_dir = loan_output_dir file in
           case os_makedirs output_dir True fs of
             Inl e \<Rightarrow> uncaught (OSError e) fs
           | Inr fs1 \<Rightarrow>
               (let output_path = os_path_join output_dir [''loan-application-summary.docx'']
                in case doc_save doc output_path fs1 of
                     (Some e, fs2) \<Rightarrow> uncaught (OSError e) fs2
                   | (None, fs2) \<Rightarrow>
                       \<lparr>exit_status = 0, stdout = loan_report output_path, stderr = [],
                        files = fs2\<rparr>)))"

definition welcome_output_path :: "string \<Rightarrow> string" where
  "welcome_output_path file =
     os_path_join (os_path_dirname file)
       [''..'', ''uploads'', ''templates'', ''welcome-letter.docx'']"

definition welcome_report :: "string \<Rightarrow> string list" where
  "welcome_report output_path =
     [''Template created: '' @ output_path,
      ''Template includes placeholders: {{firstName}}, {{lastName}}, {{email}}'']"

definition createTestTemplate :: "string \<Rightarrow> filesystem \<Rightarrow> outcome" where
  "createTestTemplate file fs =
     (case welcome_document of
        None \<Rightarrow> uncaught LibraryError fs
      | Some doc \<Rightarrow>
          (let output_path = welcome_output_path file in
           case os_makedirs (os_path_dirname output_path) True fs of
             Inl e \<Rightarrow> uncaught (OSError e) fs
           | Inr fs1 \<Rightarrow>
               (case doc_save doc output_path fs1 of
                  (Some e, fs2) \<Rightarrow> uncaught (OSError e) fs2
                | (None, fs2) \<Rightarrow>
                    \<lparr>exit_status = 0, stdout = welcome_report output_path, stderr = [],
                     files = fs2\<rparr>)))"

subsection \<open>The process around a run\<close>




subsection \<open>Example runs\<close>

text \<open>
  Three file systems to run the scripts on. In each the scripts live in \<^verbatim>\<open>/repo/scripts\<close>.
  In the first nothing else exists yet. In the second the repository directory does not
  allow new entries. In the third the loan script's output directory exists but allows no
  new entries, an earlier output file is there and writable, and the disk is full.
\<close>

definition fresh_checkout :: filesystem where
  "fresh_checkout =
     \<lparr>nodes = [[] \<mapsto> Dir True, [''repo''] \<mapsto> Dir True, [''repo'', ''scripts''] \<mapsto> Dir True],
      cwd = [''repo''], disk_full = False\<rparr>"

definition read_only_checkout :: filesystem where
  "read_only_checkout =
     \<lparr>nodes = [[] \<mapsto> Dir True, [''repo''] \<mapsto> Dir False, [''repo'', ''scripts''] \<mapsto> Dir True],
      cwd = [''repo''], disk_full = False\<rparr>"

definition full_disk_checkout :: filesystem where
  "full_disk_checkout =
     \<lparr>nodes =
        [[] \<mapsto> Dir True, [''repo''] \<mapsto> Dir True, [''repo'', ''scripts''] \<mapsto> Dir True,
         [''repo'', ''server''] \<mapsto> Dir True,
         [''repo'', ''server'', ''files''] \<mapsto> Dir True,
         [''repo'', ''server'', ''files'', ''templates''] \<mapsto> Dir False,
         [''repo'', ''server'', ''files'', ''templates'', ''loan-application-summary.docx'']
           \<mapsto> File True (Bytes ''an earlier output'')],
      cwd = [''repo''], disk_full = True\<rparr>"

definition loan_script_file :: string where
  "loan_script_file = ''/repo/scripts/createLoanTemplate.py''"

definition welcome_script_file :: string where
  "welcome_script_file = ''/repo/scripts/createTestTemplate.py''"

definition a_wednesday :: datetime where
  "a_wednesday = \<lparr>dt_year = 2026, dt_month = November, dt_day = 4\<rparr>"



section \<open>Properties of the two documents\<close>

subsection \<open>Evaluating a script\<close>

text \<open>
  A script is a chain of binds. The congruence rules used below make the simplifier run it
  in order: the first operation is evaluated, then its result is passed on.
\<close>

lemma upd_nth_numeral [simp]:
  "upd_nth (numeral k) f (x # xs) = map_option ((#) x) (upd_nth (pred_numeral k) f xs)"
  by (simp add: numeral_eq_Suc)

lemma nth_opt_numeral [simp]:
  "nth_opt (x # xs) (numeral k) = nth_opt xs (pred_numeral k)"
  by (simp add: numeral_eq_Suc)

lemma replicate_numeral_Cons [simp]:
  "replicate (numeral k) x = x # replicate (pred_numeral k) x"
  by (simp add: numeral_eq_Suc)

lemmas ops =
  add_heading_def add_paragraph_def add_paragraph_styled_def set_alignment_def add_table_def
  set_table_style_def set_cell_text_def update_block_def as_table_def as_para_def
  update_cell_def new_paragraph_def new_cell_def Document_def digit_char_def add_run_def
  set_bold_def set_font_size_def set_font_color_def update_run_def update_cell_para_def
  set_normal_font_name_def set_normal_font_size_def new_run_def empty_font_def

lemmas loan_script =
  loan_document_def letterhead_def date_and_reference_def applicant_information_def
  employment_information_def loan_request_details_def financial_analysis_def
  footer_disclaimer_def bullet_def

lemmas texts = document_tokens_def document_texts_def para_text_def tokens_of_def

subsection \<open>The date stamp holds no token\<close>

lemma scan_tokens_no_open: "CHR ''{'' \<notin> set s \<Longrightarrow> scan_tokens None s = []"
  by (induction "None :: string option" s rule: scan_tokens.induct) auto

lemma digit_char_not_open: "digit_char d \<noteq> CHR ''{''"
proof -
  have "digit_char d \<in> set ''0123456789''"
    unfolding digit_char_def by (rule nth_mem) simp
  then show ?thesis by auto
qed

lemma decimal_no_open: "CHR ''{'' \<notin> set (decimal n)"
proof (induction n rule: decimal.induct)
  case (1 n)
  then show ?case
    using digit_char_not_open [of n] by (subst decimal.simps) (auto simp: eq_commute)
qed

lemma strftime_no_open: "CHR ''{'' \<notin> set (strftime now)"
  using decimal_no_open [of "dt_year now"] decimal_no_open [of "dt_day now"]
  by (cases "dt_month now") (auto simp: strftime_def two_digits_def)

lemma strftime_example:
  "strftime \<lparr>dt_year = 2024, dt_month = March, dt_day = 5\<rparr> = ''March 05, 2024''"
  by (simp add: strftime_def two_digits_def decimal.simps digit_char_def)

subsection \<open>Placeholder tokens\<close>

lemma loan_tokens:
  "\<exists>doc. loan_document now = Some doc \<and>
     set (document_tokens doc) =
       {''firstName'', ''lastName'', ''email'', ''phone'', ''dateOfBirth'', ''ssn'',
        ''employmentStatus'', ''employerName'', ''jobTitle'', ''annualIncome'', ''monthlyDebt'',
        ''loanAmount'', ''loanPurpose'', ''loanTerm'', ''debtToIncomeRatio.ratio'',
        ''debtToIncomeRatio.status'', ''debtToIncomeRatio.monthlyIncome''}"
  apply (simp add: loan_script ops texts scan_tokens_no_open strftime_no_open
           cong: prod.case_cong_weak bind_option_cong_code)
  apply auto
  done

lemma welcome_tokens:
  "\<exists>doc. welcome_document = Some doc \<and>
     set (document_tokens doc) = {''firstName'', ''lastName'', ''email''}"
  apply (simp add: welcome_document_def ops texts
           cong: prod.case_cong_weak bind_option_cong_code)
  apply auto
  done

text \<open>
  C1. Whatever the date, the loan script builds its document, and the placeholder tokens
  in the texts of that document (body paragraphs and table cells) are exactly the
  seventeen names of the specification.
\<close>

theorem loan_document_tokens:
  "\<exists>doc. loan_document now = Some doc \<and>
     set (document_tokens doc) =
       {''firstName'', ''lastName'', ''email'', ''phone'', ''dateOfBirth'', ''ssn'',
        ''employmentStatus'', ''employerName'', ''jobTitle'', ''annualIncome'', ''monthlyDebt'',
        ''loanAmount'', ''loanPurpose'', ''loanTerm'', ''debtToIncomeRatio.ratio'',
        ''debtToIncomeRatio.status'', ''debtToIncomeRatio.monthlyIncome''}"
  by (rule loan_tokens)

text \<open>
  C2. The welcome-letter script builds its document, and the placeholder tokens in its
  texts are exactly \<^verbatim>\<open>firstName\<close>, \<^verbatim>\<open>lastName\<close> and \<^verbatim>\<open>email\<close>.
\<close>

theorem welcome_document_tokens:
  "\<exists>doc. welcome_document = Some doc \<and>
     set (document_tokens doc) = {''firstName'', ''lastName'', ''email''}"
  by (rule welcome_tokens)

subsection \<open>Tables\<close>

text \<open>
  C3. The loan document holds exactly four tables, in this order and each right after its
  heading: Applicant Information with 5 rows, Employment Information with 4, Loan Request
  Details with 3 and Financial Analysis with 3, every row of 2 cells. The welcome letter
  holds exactly one table, of 3 rows of 2 cells.
\<close>

theorem table_dimensions_of_both:
  "(\<exists>doc. loan_document now = Some doc \<and>
      map table_dimensions (tables_of doc) =
        [(5, [2, 2, 2, 2, 2]), (4, [2, 2, 2, 2]), (3, [2, 2, 2]), (3, [2, 2, 2])] \<and>
      labelled_tables (body doc) =
        [(''Applicant Information'', 5, [2, 2, 2, 2, 2]),
         (''Employment Information'', 4, [2, 2, 2, 2]),
         (''Loan Request Details'', 3, [2, 2, 2]),
         (''Financial Analysis'', 3, [2, 2, 2])]) \<and>
   (\<exists>doc. welcome_document = Some doc \<and>
      map table_dimensions (tables_of doc) = [(3, [2, 2, 2])])"
proof (rule conjI)
  show "\<exists>doc. loan_document now = Some doc \<and>
      map table_dimensions (tables_of doc) =
        [(5, [2, 2, 2, 2, 2]), (4, [2, 2, 2, 2]), (3, [2, 2, 2]), (3, [2, 2, 2])] \<and>
      labelled_tables (body doc) =
        [(''Applicant Information'', 5, [2, 2, 2, 2, 2]),
         (''Employment Information'', 4, [2, 2, 2, 2]),
         (''Loan Request Details'', 3, [2, 2, 2]),
         (''Financial Analysis'', 3, [2, 2, 2])]"
    by (simp add: loan_script ops tables_of_def table_dimensions_def para_text_def
          cong: prod.case_cong_weak bind_option_cong_code)
  show "\<exists>doc. welcome_document = Some doc \<and>
      map table_dimensions (tables_of doc) = [(3, [2, 2, 2])]"
    by (simp add: welcome_document_def ops tables_of_def table_dimensions_def
          cong: prod.case_cong_weak bind_option_cong_code)
qed

subsection \<open>The date stamp and the requested amount\<close>

text \<open>
  C8. The fifth block of the loan document is the date paragraph: it is right-aligned and
  its one run reads \<^verbatim>\<open>Date: \<close> followed by the full month name, the day in two digits, a
  comma and the year. In the third table (Loan Request Details) the cell beside
  \<^verbatim>\<open>Requested Amount:\<close> holds one paragraph of one run, which is bold, 12 points high
  and of colour (0, 102, 0).
\<close>

theorem date_stamp_and_requested_amount:
  "\<exists>doc applicant_table employment_table loan_table analysis_table.
     loan_document now = Some doc \<and>
     nth_opt (body doc) 4 =
       Some (BlockParagraph
         \<lparr>para_style = None, para_alignment = Some RIGHT,
          para_runs =
            [\<lparr>run_text =
                ''Date: '' @ month_name (dt_month now) @ '' '' @ two_digits (dt_day now) @
                '', '' @ decimal (dt_year now),
              run_bold = None, run_font = empty_font\<rparr>]\<rparr>) \<and>
     tables_of doc = [applicant_table, employment_table, loan_table, analysis_table] \<and>
     map_option cell_text (table_cell loan_table 0 0) = Some ''Requested Amount:'' \<and>
     map_option cell_paragraphs (table_cell loan_table 0 1) =
       Some [\<lparr>para_style = None, para_alignment = None,
              para_runs =
                [\<lparr>run_text = ''${{loanAmount}}'', run_bold = Some True,
                  run_font =
                    \<lparr>font_name = None, font_size = Some (12 * 12700),
                     font_color = Some (RGBColor 0 102 0)\<rparr>\<rparr>]\<rparr>]"
  by (simp add: loan_script ops tables_of_def table_cell_def cell_text_def para_text_def
        strftime_def Pt_def cong: prod.case_cong_weak bind_option_cong_code)

subsection \<open>Tokens inside larger texts\<close>

text \<open>
  C10. In the loan document the texts of six cells embed their tokens in literal
  characters: \<^verbatim>\<open>XXX-XX-{{ssn}}\<close>, \<^verbatim>\<open>${{annualIncome}}\<close>, \<^verbatim>\<open>${{loanAmount}}\<close>,
  \<^verbatim>\<open>${{debtToIncomeRatio.monthlyIncome}}\<close>, \<^verbatim>\<open>${{monthlyDebt}}\<close> and
  \<^verbatim>\<open>{{debtToIncomeRatio.ratio}}% ({{debtToIncomeRatio.status}})\<close>. Filling such a text
  replaces the tokens only: the literal characters around them stay.
\<close>

theorem embedded_tokens_keep_literals:
  "\<exists>doc applicant_table employment_table loan_table analysis_table.
     loan_document now = Some doc \<and>
     tables_of doc = [applicant_table, employment_table, loan_table, analysis_table] \<and>
     map_option cell_text (table_cell applicant_table 4 1) = Some ''XXX-XX-{{ssn}}'' \<and>
     map_option cell_text (table_cell employment_table 3 1) = Some ''${{annualIncome}}'' \<and>
     map_option cell_text (table_cell loan_table 0 1) = Some ''${{loanAmount}}'' \<and>
     map_option cell_text (table_cell analysis_table 0 1) =
       Some ''${{debtToIncomeRatio.monthlyIncome}}'' \<and>
     map_option cell_text (table_cell analysis_table 1 1) = Some ''${{monthlyDebt}}'' \<and>
     map_option cell_text (table_cell analysis_table 2 1) =
       Some ''{{debtToIncomeRatio.ratio}}% ({{debtToIncomeRatio.status}})'' \<and>
     map_option (fill env \<circ> cell_text) (table_cell applicant_table 4 1) =
       Some (''XXX-XX-'' @ env ''ssn'') \<and>
     map_option (fill env \<circ> cell_text) (table_cell employment_table 3 1) =
       Some (''$'' @ env ''annualIncome'') \<and>
     map_option (fill env \<circ> cell_text) (table_cell loan_table 0 1) =
       Some (''$'' @ env ''loanAmount'') \<and>
     map_option (fill env \<circ> cell_text) (table_cell analysis_table 0 1) =
       Some (''$'' @ env ''debtToIncomeRatio.monthlyIncome'') \<and>
     map_option (fill env \<circ> cell_text) (table_cell analysis_table 1 1) =
       Some (''$'' @ env ''monthlyDebt'') \<and>
     map_option (fill env \<circ> cell_text) (table_cell analysis_table 2 1) =
       Some (env ''debtToIncomeRatio.ratio'' @ ''% ('' @ env ''debtToIncomeRatio.status'' @
             '')'')"
  by (simp add: loan_script ops tables_of_def table_cell_def cell_text_def para_text_def
        fill_def cong: prod.case_cong_weak bind_option_cong_code)

section \<open>Properties of the runs\<close>

lemma list_update_numeral_Cons [simp]:
  "(x # xs)[numeral k := y] = x # xs[pred_numeral k := y]"
  by (simp add: numeral_eq_Suc)

subsection \<open>The shape of a run\<close>

text \<open>
  A run that cannot build its document aside (both scripts can: see above), a run either
  stops on the error of \<^verbatim>\<open>os.makedirs\<close> or of \<^verbatim>\<open>doc.save\<close>, or it saves the document at
  the place the output path resolves to and then prints its report.
\<close>

lemma doc_save_ok:
  "doc_save doc p fs1 = (None, fs2) \<Longrightarrow>
     \<exists>t w. resolve fs1 p = Inr t \<and> fs2 = fs1\<lparr>nodes := (nodes fs1)(t \<mapsto> File w (Docx doc))\<rparr>"
  by (auto simp: doc_save_def write_docx_def
           split: sum.splits option.splits node.splits if_splits)

lemma loan_report_tokens:
  "set (concat (map tokens_of (tl (loan_report p)))) =
     {''firstName'', ''lastName'', ''email'', ''phone'', ''dateOfBirth'', ''ssn'',
      ''employmentStatus'', ''employerName'', ''jobTitle'', ''annualIncome'', ''monthlyDebt'',
      ''loanAmount'', ''loanPurpose'', ''loanTerm'', ''debtToIncomeRatio.ratio'',
      ''debtToIncomeRatio.status'', ''debtToIncomeRatio.monthlyIncome''}"
  by (auto simp: loan_report_def tokens_of_def)

lemma welcome_report_tokens:
  "set (concat (map tokens_of (tl (welcome_report p)))) = {''firstName'', ''lastName'', ''email''}"
  by (auto simp: welcome_report_def tokens_of_def)

lemma loan_run_cases:
  assumes d: "loan_document now = Some doc"
  shows "(\<exists>e fs'. createLoanTemplate file now fs = uncaught (OSError e) fs') \<or>
         (\<exists>fs1 t w. os_makedirs (loan_output_dir file) True fs = Inr fs1 \<and>
            resolve fs1 (loan_output_path file) = Inr t \<and>
            createLoanTemplate file now fs =
              \<lparr>exit_status = 0, stdout = loan_report (loan_output_path file), stderr = [],
               files = fs1\<lparr>nodes := (nodes fs1)(t \<mapsto> File w (Docx doc))\<rparr>\<rparr>)"
proof (cases "os_makedirs (loan_output_dir file) True fs")
  case (Inl e)
  then show ?thesis by (auto simp: createLoanTemplate_def d)
next
  case (Inr fs1)
  show ?thesis
  proof (cases "doc_save doc (loan_output_path file) fs1")
    case (Pair r fs2)
    show ?thesis
    proof (cases r)
      case None
      with Pair doc_save_ok obtain t w where
        "resolve fs1 (loan_output_path file) = Inr t"
        "fs2 = fs1\<lparr>nodes := (nodes fs1)(t \<mapsto> File w (Docx doc))\<rparr>"
        by blast
      with Inr Pair None show ?thesis
        by (auto simp: createLoanTemplate_def d loan_output_path_def)
    next
      case (Some e)
      with Inr Pair show ?thesis
        by (auto simp: createLoanTemplate_def d loan_output_path_def)
    qed
  qed
qed

lemma welcome_run_cases:
  assumes d: "welcome_document = Some doc"
  shows "(\<exists>e fs'. createTestTemplate file fs = uncaught (OSError e) fs') \<or>
         (\<exists>fs1 t w. os_makedirs (os_path_dirname (welcome_output_path file)) True fs = Inr fs1 \<and>
            resolve fs1 (welcome_output_path file) = Inr t \<and>
            createTestTemplate file fs =
              \<lparr>exit_status = 0, stdout = welcome_report (welcome_output_path file), stderr = [],
               files = fs1\<lparr>nodes := (nodes fs1)(t \<mapsto> File w (Docx doc))\<rparr>\<rparr>)"
proof (cases "os_makedirs (os_path_dirname (welcome_output_path file)) True fs")
  case (Inl e)
  then show ?thesis by (auto simp: createTestTemplate_def d)
next
  case (Inr fs1)
  show ?thesis
  proof (cases "doc_save doc (welcome_output_path file) fs1")
    case (Pair r fs2)
    show ?thesis
    proof (cases r)
      case None
      with Pair doc_save_ok obtain t w where
        "resolve fs1 (welcome_output_path file) = Inr t"
        "fs2 = fs1\<lparr>nodes := (nodes fs1)(t \<mapsto> File w (Docx doc))\<rparr>"
        by blast
      with Inr Pair None show ?thesis
        by (auto simp: createTestTemplate_def d)
    next
      case (Some e)
      with Inr Pair show ?thesis
        by (auto simp: createTestTemplate_def d)
    qed
  qed
qed



subsection \<open>The example runs\<close>

text \<open>
  The path components of a string, one character at a time.
\<close>

lemma components_Nil: "components [] = [[]]"
  by (simp add: components_def)

lemma components_not_Nil: "components s \<noteq> []"
  by (induction s) (auto simp: components_def)

lemma components_Cons:
  "components (c # cs) =
     (if c = sep then [] # components cs
      else (case components cs of [] \<Rightarrow> [[c]] | x # xs \<Rightarrow> (c # x) # xs))"
  using components_not_Nil [of cs]
  by (cases "components cs") (auto simp: components_def)

lemmas run_eval =
  os_path_join_def join2_def os_path_dirname_def os_path_split_def rstrip_sep_def sep_def
  loan_output_dir_def loan_output_path_def welcome_output_path_def makedirs_split_def
  makedirs_head_missing_def os_path_exists_def os_path_isdir_def resolve_def components_Nil
  components_Cons os_mkdir_def doc_save_def write_docx_def os_makedirs.simps
  loan_script_file_def welcome_script_file_def uncaught_def

lemma loan_run_on_fresh_checkout:
  "loan_document now = Some doc \<Longrightarrow>
   createLoanTemplate loan_script_file now fresh_checkout =
     \<lparr>exit_status = 0,
      stdout = loan_report ''/repo/scripts/../server/files/templates/loan-application-summary.docx'',
      stderr = [],
      files = fresh_checkout
        \<lparr>nodes := (nodes fresh_checkout)
           ([''repo'', ''server''] \<mapsto> Dir True,
            [''repo'', ''server'', ''files''] \<mapsto> Dir True,
            [''repo'', ''server'', ''files'', ''templates''] \<mapsto> Dir True,
            [''repo'', ''server'', ''files'', ''templates'', ''loan-application-summary.docx'']
              \<mapsto> File True (Docx doc))\<rparr>\<rparr>"
  by (simp add: createLoanTemplate_def run_eval fresh_checkout_def
        cong: sum.case_cong_weak option.case_cong_weak prod.case_cong_weak node.case_cong_weak)

lemma welcome_run_on_fresh_checkout:
  assumes d: "welcome_document = Some doc"
  shows "createTestTemplate welcome_script_file fresh_checkout =
     \<lparr>exit_status = 0,
      stdout = welcome_report ''/repo/scripts/../uploads/templates/welcome-letter.docx'',
      stderr = [],
      files = fresh_checkout
        \<lparr>nodes := (nodes fresh_checkout)
           ([''repo'', ''uploads''] \<mapsto> Dir True,
            [''repo'', ''uploads'', ''templates''] \<mapsto> Dir True,
            [''repo'', ''uploads'', ''templates'', ''welcome-letter.docx'']
              \<mapsto> File True (Docx doc))\<rparr>\<rparr>"
  unfolding createTestTemplate_def d option.case
  by (simp add: run_eval fresh_checkout_def
        cong: sum.case_cong_weak option.case_cong_weak prod.case_cong_weak node.case_cong_weak)

lemma loan_run_on_read_only_checkout:
  "loan_document now = Some doc \<Longrightarrow>
   createLoanTemplate loan_script_file now read_only_checkout =
     \<lparr>exit_status = 1, stdout = [], stderr = [''PermissionError''], files = read_only_checkout\<rparr>"
  by (simp add: createLoanTemplate_def run_eval read_only_checkout_def
        cong: sum.case_cong_weak option.case_cong_weak prod.case_cong_weak node.case_cong_weak)

lemma welcome_run_on_read_only_checkout:
  assumes d: "welcome_document = Some doc"
  shows "createTestTemplate welcome_script_file read_only_checkout =
     \<lparr>exit_status = 1, stdout = [], stderr = [''PermissionError''], files = read_only_checkout\<rparr>"
  unfolding createTestTemplate_def d option.case
  by (simp add: run_eval read_only_checkout_def
        cong: sum.case_cong_weak option.case_cong_weak prod.case_cong_weak node.case_cong_weak)

lemma loan_run_on_full_disk_checkout:
  "loan_document now = Some doc \<Longrightarrow>
   createLoanTemplate loan_script_file now full_disk_checkout =
     \<lparr>exit_status = 1, stdout = [],
      stderr = [''OSError: [Errno 28] No space left on device''],
      files = full_disk_checkout
        \<lparr>nodes := (nodes full_disk_checkout)
           ([''repo'', ''server'', ''files'', ''templates'', ''loan-application-summary.docx'']
              \<mapsto> File True Truncated)\<rparr>\<rparr>"
  by (simp add: createLoanTemplate_def run_eval full_disk_checkout_def
        cong: sum.case_cong_weak option.case_cong_weak prod.case_cong_weak node.case_cong_weak)

subsection \<open>What a run depends on\<close>







subsection \<open>The confirmation\<close>

text \<open>
  C9. A run of either script that ends with exit status 0 has made the directories,
  written its document to the place the output path resolves to, and printed its report:
  the first line is the confirmation with the output path, and the placeholder tokens
  named on the lines after it are exactly the tokens of the document written. A run that
  does not end with status 0 ends with status 1 and has printed nothing.
\<close>

theorem confirmation_follows_save:
  "(let out = createLoanTemplate file now fs in
      if exit_status out = 0 then
        (\<exists>doc fs1 t w. loan_document now = Some doc \<and>
           os_makedirs (loan_output_dir file) True fs = Inr fs1 \<and>
           resolve fs1 (loan_output_path file) = Inr t \<and>
           files out = fs1\<lparr>nodes := (nodes fs1)(t \<mapsto> File w (Docx doc))\<rparr> \<and>
           hd (stdout out) = ''[OK] Template created: '' @ loan_output_path file \<and>
           set (concat (map tokens_of (tl (stdout out)))) = set (document_tokens doc))
      else exit_status out = 1 \<and> stdout out = []) \<and>
   (let out = createTestTemplate file' fs' in
      if exit_status out = 0 then
        (\<exists>doc fs1 t w. welcome_document = Some doc \<and>
           os_makedirs (os_path_dirname (welcome_output_path file')) True fs' = Inr fs1 \<and>
           resolve fs1 (welcome_output_path file') = Inr t \<and>
           files out = fs1\<lparr>nodes := (nodes fs1)(t \<mapsto> File w (Docx doc))\<rparr> \<and>
           hd (stdout out) = ''Template created: '' @ welcome_output_path file' \<and>
           set (concat (map tokens_of (tl (stdout out)))) = set (document_tokens doc))
      else exit_status out = 1 \<and> stdout out = [])"
proof (rule conjI)
  obtain doc where d: "loan_document now = Some doc"
    and tk: "set (document_tokens doc) =
       {''firstName'', ''lastName'', ''email'', ''phone'', ''dateOfBirth'', ''ssn'',
        ''employmentStatus'', ''employerName'', ''jobTitle'', ''annualIncome'', ''monthlyDebt'',
        ''loanAmount'', ''loanPurpose'', ''loanTerm'', ''debtToIncomeRatio.ratio'',
        ''debtToIncomeRatio.status'', ''debtToIncomeRatio.monthlyIncome''}"
    using loan_tokens [of now] by blast
  from loan_run_cases [OF d, of "file" fs]
  show "let out = createLoanTemplate file now fs in
      if exit_status out = 0 then
        (\<exists>doc fs1 t w. loan_document now = Some doc \<and>
           os_makedirs (loan_output_dir file) True fs = Inr fs1 \<and>
           resolve fs1 (loan_output_path file) = Inr t \<and>
           files out = fs1\<lparr>nodes := (nodes fs1)(t \<mapsto> File w (Docx doc))\<rparr> \<and>
           hd (stdout out) = ''[OK] Template created: '' @ loan_output_path file \<and>
           set (concat (map tokens_of (tl (stdout out)))) = set (document_tokens doc))
      else exit_status out = 1 \<and> stdout out = []"
  proof (elim disjE exE conjE)
    fix e fs'
    assume "createLoanTemplate file now fs = uncaught (OSError e) fs'"
    then show ?thesis by (simp add: uncaught_def)
  next
    fix fs1 t w
    assume a: "os_makedirs (loan_output_dir file) True fs = Inr fs1"
      "resolve fs1 (loan_output_path file) = Inr t"
      "createLoanTemplate file now fs =
         \<lparr>exit_status = 0, stdout = loan_report (loan_output_path file), stderr = [],
          files = fs1\<lparr>nodes := (nodes fs1)(t \<mapsto> File w (Docx doc))\<rparr>\<rparr>"
    have h: "hd (loan_report (loan_output_path file)) =
               ''[OK] Template created: '' @ loan_output_path file"
      by (simp add: loan_report_def)
    show ?thesis
      using a d h loan_report_tokens [of "loan_output_path file"] tk
      by (simp add: Let_def) blast
  qed
next
  obtain doc where d: "welcome_document = Some doc"
    and tk: "set (document_tokens doc) = {''firstName'', ''lastName'', ''email''}"
    using welcome_tokens by blast
  from welcome_run_cases [OF d, of file' fs']
  show "let out = createTestTemplate file' fs' in
      if exit_status out = 0 then
        (\<exists>doc fs1 t w. welcome_document = Some doc \<and>
           os_makedirs (os_path_dirname (welcome_output_path file')) True fs' = Inr fs1 \<and>
           resolve fs1 (welcome_output_path file') = Inr t \<and>
           files out = fs1\<lparr>nodes := (nodes fs1)(t \<mapsto> File w (Docx doc))\<rparr> \<and>
           hd (stdout out) = ''Template created: '' @ welcome_output_path file' \<and>
           set (concat (map tokens_of (tl (stdout out)))) = set (document_tokens doc))
      else exit_status out = 1 \<and> stdout out = []"
  proof (elim disjE exE conjE)
    fix e fs''
    assume "createTestTemplate file' fs' = uncaught (OSError e) fs''"
    then show ?thesis by (simp add: uncaught_def)
  next
    fix fs1 t w
    assume a: "os_makedirs (os_path_dirname (welcome_output_path file')) True fs' = Inr fs1"
      "resolve fs1 (welcome_output_path file') = Inr t"
      "createTestTemplate file' fs' =
         \<lparr>exit_status = 0, stdout = welcome_report (welcome_output_path file'), stderr = [],
          files = fs1\<lparr>nodes := (nodes fs1)(t \<mapsto> File w (Docx doc))\<rparr>\<rparr>"
    have h: "hd (welcome_report (welcome_output_path file')) =
               ''Template created: '' @ welcome_output_path file'"
      by (simp add: welcome_report_def)
    show ?thesis
      using a d h welcome_report_tokens [of "welcome_output_path file'"] tk
      by (simp add: Let_def) blast
  qed
qed

text \<open>
  Both scripts on the fresh checkout end with status 0, print their report and leave their
  document at the output path; on the read-only checkout they end with status 1 and print
  nothing.
\<close>

theorem confirmation_follows_save_witness:
  "exit_status (createLoanTemplate loan_script_file a_wednesday fresh_checkout) = 0 \<and>
   stdout (createLoanTemplate loan_script_file a_wednesday fresh_checkout) =
     loan_report ''/repo/scripts/../server/files/templates/loan-application-summary.docx'' \<and>
   (\<exists>doc. loan_document a_wednesday = Some doc \<and>
      nodes (files (createLoanTemplate loan_script_file a_wednesday fresh_checkout))
        [''repo'', ''server'', ''files'', ''templates'', ''loan-application-summary.docx'']
        = Some (File True (Docx doc)) \<and>
      set (concat (map tokens_of
             (tl (stdout (createLoanTemplate loan_script_file a_wednesday fresh_checkout)))))
        = set (document_tokens doc)) \<and>
   exit_status (createTestTemplate welcome_script_file fresh_checkout) = 0 \<and>
   stdout (createTestTemplate welcome_script_file fresh_checkout) =
     welcome_report ''/repo/scripts/../uploads/templates/welcome-letter.docx'' \<and>
   (\<exists>doc. welcome_document = Some doc \<and>
      nodes (files (createTestTemplate welcome_script_file fresh_checkout))
        [''repo'', ''uploads'', ''templates'', ''welcome-letter.docx'']
        = Some (File True (Docx doc)) \<and>
      set (concat (map tokens_of
             (tl (stdout (createTestTemplate welcome_script_file fresh_checkout)))))
        = set (document_tokens doc)) \<and>
   exit_status (createLoanTemplate loan_script_file a_wednesday read_only_checkout) = 1 \<and>
   stdout (createLoanTemplate loan_script_file a_wednesday read_only_checkout) = [] \<and>
   exit_status (createTestTemplate welcome_script_file read_only_checkout) = 1 \<and>
   stdout (createTestTemplate welcome_script_file read_only_checkout) = []"
proof -
  obtain ldoc where l: "loan_document a_wednesday = Some ldoc"
    using loan_tokens [of a_wednesday] by blast
  obtain wdoc where w: "welcome_document = Some wdoc"
    using welcome_tokens by blast
  note runs = loan_run_on_fresh_checkout [OF l] welcome_run_on_fresh_checkout [OF w]
    loan_run_on_read_only_checkout [OF l] welcome_run_on_read_only_checkout [OF w]
  from confirmation_follows_save
         [of loan_script_file a_wednesday fresh_checkout welcome_script_file fresh_checkout]
  have "set (concat (map tokens_of
              (tl (loan_report
                ''/repo/scripts/../server/files/templates/loan-application-summary.docx''))))
          = set (document_tokens ldoc)"
    and "set (concat (map tokens_of
              (tl (welcome_report ''/repo/scripts/../uploads/templates/welcome-letter.docx''))))
          = set (document_tokens wdoc)"
    by (auto simp: runs l w Let_def)
  then show ?thesis
    by (simp add: runs l w)
qed

end
